theory Spec2Isabelle
  imports Complex_Main "HOL-Library.AList" "HOL-Library.Sublist"
begin

section \<open>The orchestration core of devika (src/devika/agents/agent.py)\<close>

text \<open>
  The class \<open>Agent\<close> drives a pipeline of opaque roles (planner, researcher, coder, ...)
  and external collaborators (search engine, browser, PDF generator, Netlify) and records
  its progress in a session state: a message log per project and the flags
  \<open>active\<close> and \<open>completed\<close>.

  The embedding is a state-passing one. A \<open>world\<close> holds the message logs, the flags, the
  agent's keyword set and a chronological trace of every effect. Every method of the
  source becomes a function from a world to an \<open>outcome\<close>: it returns a value, raises an
  exception, or is still waiting in the poll loop of \<open>execute\<close>; each outcome carries the
  world it leaves behind, since a Python exception does not undo the effects before it.
  Roles and collaborators are parameters (the record \<open>env\<close>): each is a function that
  may read the whole world (so two calls with equal arguments may answer differently) and
  either fails or answers. They are taken not to write the message log or the flags
  themselves. Calls to \<open>print\<close> only write to the standard output and are left out.
\<close>

subsection \<open>Data\<close>

datatype origin = User | System

datatype message = Message (origin: origin) (body: string)

datatype json = JString string | JObject "(string \<times> json) list" | JArray "json list"

text \<open>
  \<open>UnboundLocalError\<close> and \<open>KeyError\<close> are the two exceptions the orchestrator itself
  can raise (a local read before assignment, a missing dictionary key); \<open>Failure\<close>
  stands for whatever a role or a collaborator raises.
\<close>

datatype error = UnboundLocalError string | KeyError string | Failure string

record planner_response =
  project :: string
  reply :: string
  focus :: string
  plans :: json
  summary :: string

record research =
  queries :: "string list"
  ask_user :: string

datatype decision_item =
  DecisionItem (item_function: string) (item_args: "(string \<times> string) list") (item_reply: string)

type_synonym code_files = "(string \<times> string) list"

text \<open>Every effect of a run, in the order it happens, with the arguments of the call.\<close>

datatype event =
    AddMessage string message
  | MessageArrived string message
  | CreateProject string
  | SetAgentActive string bool
  | SetAgentCompleted string bool
  | LoggerInfo string
  | Sleep nat
  | PlannerExecute string "string option"
  | PlannerParseResponse string
  | ResearcherExecute string "string set" string
  | FormatterExecute string string
  | CoderExecute string string "(string \<times> string) list" string
  | CoderSaveCode code_files string
  | ActionExecute "string list" string
  | AnswerExecute "string list" string string
  | RunnerExecute "string list" string string string string
  | FeatureExecute "string list" string string string
  | FeatureSaveCode code_files string
  | PatcherExecute "string list" string "string list" string string string
  | PatcherSaveCode code_files string
  | ReporterExecute "string list" string string
  | DecisionExecute string string
  | ExtractKeywords string
  | SearchEngineSearch string
  | SearchEngineGetFirstLink
  | BrowserGoTo string
  | BrowserScreenshot string
  | BrowserExtractText
  | MarkdownToPdf string string
  | StartInteraction string string string
  | CodeToMarkdownConvert string
  | GetProjectPath string
  | ConfigGetNetlifyApiKey
  | NetlifyCreateSite string
  | NetlifyDeploySite string string string



record world =
  messages :: "string \<Rightarrow> message list"
  agent_active :: "string \<Rightarrow> bool"
  agent_completed :: "string \<Rightarrow> bool"
  collected_context_keywords :: "string set"
  trace :: "event list"

datatype 'a outcome = Return 'a world | Raise error world | Waiting world

fun final_world :: "'a outcome \<Rightarrow> world" where
  "final_world (Return _ s) = s"
| "final_world (Raise _ s) = s"
| "final_world (Waiting s) = s"

text \<open>Sequencing of two statements: the second runs only when the first returns.\<close>

fun and_then :: "'a outcome \<Rightarrow> ('a \<Rightarrow> world \<Rightarrow> 'b outcome) \<Rightarrow> 'b outcome" where
  "and_then (Return x s) f = f x s"
| "and_then (Raise e s) f = Raise e s"
| "and_then (Waiting s) f = Waiting s"

text \<open>
  The roles and collaborators the orchestrator calls. \<open>action__execute\<close> is
  \<open>BaseAgent._execute\<close> as \<open>Action\<close> inherits it; \<open>json_dumps\<close> is \<open>json.dumps\<close> with
  \<open>indent=4\<close>, \<open>platform_platform\<close> is \<open>platform.platform()\<close>, and \<open>format_message\<close> is
  the rendering of one message by \<open>ProjectManager.get_all_messages_formatted\<close>.
\<close>

record env =
  planner_execute :: "string \<Rightarrow> string option \<Rightarrow> world \<Rightarrow> error + string"
  planner_parse_response :: "string \<Rightarrow> world \<Rightarrow> error + planner_response"
  researcher_execute :: "string \<Rightarrow> string set \<Rightarrow> string \<Rightarrow> world \<Rightarrow> error + research"
  formatter_execute :: "string \<Rightarrow> string \<Rightarrow> world \<Rightarrow> error + string"
  coder_execute :: "string \<Rightarrow> string \<Rightarrow> (string \<times> string) list \<Rightarrow> string \<Rightarrow> world \<Rightarrow> error + code_files"
  coder_save_code_to_project :: "code_files \<Rightarrow> string \<Rightarrow> world \<Rightarrow> error + unit"
  action__execute :: "string list \<Rightarrow> string \<Rightarrow> world \<Rightarrow> error + (string \<times> string)"
  answer_execute :: "string list \<Rightarrow> string \<Rightarrow> string \<Rightarrow> world \<Rightarrow> error + string"
  runner_execute :: "string list \<Rightarrow> string \<Rightarrow> string \<Rightarrow> string \<Rightarrow> string \<Rightarrow> world \<Rightarrow> error + unit"
  feature_execute :: "string list \<Rightarrow> string \<Rightarrow> string \<Rightarrow> string \<Rightarrow> world \<Rightarrow> error + code_files"
  feature_save_code_to_project :: "code_files \<Rightarrow> string \<Rightarrow> world \<Rightarrow> error + unit"
  patcher_execute :: "string list \<Rightarrow> string \<Rightarrow> string list \<Rightarrow> string \<Rightarrow> string \<Rightarrow> string \<Rightarrow> world \<Rightarrow> error + code_files"
  patcher_save_code_to_project :: "code_files \<Rightarrow> string \<Rightarrow> world \<Rightarrow> error + unit"
  reporter_execute :: "string list \<Rightarrow> string \<Rightarrow> string \<Rightarrow> world \<Rightarrow> error + string"
  decision_execute :: "string \<Rightarrow> string \<Rightarrow> world \<Rightarrow> error + decision_item list"
  extract_keywords :: "string \<Rightarrow> world \<Rightarrow> error + (string \<times> real) list"
  search_engine_search :: "string \<Rightarrow> world \<Rightarrow> error + unit"
  search_engine_get_first_link :: "world \<Rightarrow> error + string"
  browser_go_to :: "string \<Rightarrow> world \<Rightarrow> error + unit"
  browser_screenshot :: "string \<Rightarrow> world \<Rightarrow> error + unit"
  browser_extract_text :: "world \<Rightarrow> error + string"
  markdown_to_pdf :: "string \<Rightarrow> string \<Rightarrow> world \<Rightarrow> error + string"
  start_interaction :: "string \<Rightarrow> string \<Rightarrow> string \<Rightarrow> world \<Rightarrow> error + unit"
  code_to_markdown_convert :: "string \<Rightarrow> world \<Rightarrow> error + string"
  get_project_path :: "string \<Rightarrow> world \<Rightarrow> error + string"
  config_get_netlify_api_key :: "world \<Rightarrow> error + string"
  netlify_create_site :: "string \<Rightarrow> world \<Rightarrow> error + (string \<times> string) list"
  netlify_deploy_site :: "string \<Rightarrow> string \<Rightarrow> string \<Rightarrow> world \<Rightarrow> error + (string \<times> string) list"
  json_dumps :: "json \<Rightarrow> string"
  platform_platform :: string
  format_message :: "message \<Rightarrow> string"
  base_model :: string

subsection \<open>Primitive effects\<close>

definition record_event :: "event \<Rightarrow> world \<Rightarrow> world" where
  "record_event ev s = s\<lparr>trace := trace s @ [ev]\<rparr>"

text \<open>A statement that cannot fail.\<close>

definition perform :: "(world \<Rightarrow> world) \<Rightarrow> world \<Rightarrow> unit outcome" where
  "perform f s = Return () (f s)"

text \<open>
  A call of a role or collaborator: the call is recorded, and the callee's exception, if
  any, propagates.
\<close>

definition invoke :: "event \<Rightarrow> (world \<Rightarrow> error + 'a) \<Rightarrow> world \<Rightarrow> 'a outcome" where
  "invoke ev callee s =
     (case callee s of
        Inl e \<Rightarrow> Raise e (record_event ev s)
      | Inr x \<Rightarrow> Return x (record_event ev s))"

text \<open>Reading a local variable: Python raises \<open>UnboundLocalError\<close> when it was never assigned.\<close>

definition read_local :: "string \<Rightarrow> 'a option \<Rightarrow> world \<Rightarrow> 'a outcome" where
  "read_local name v s =
     (case v of None \<Rightarrow> Raise (UnboundLocalError name) s | Some x \<Rightarrow> Return x s)"

text \<open>Subscripting a dictionary: Python raises \<open>KeyError\<close> when the key is missing.\<close>

definition subscript :: "(string \<times> 'a) list \<Rightarrow> string \<Rightarrow> world \<Rightarrow> 'a outcome" where
  "subscript d k s =
     (case map_of d k of None \<Rightarrow> Raise (KeyError k) s | Some v \<Rightarrow> Return v s)"

subsection \<open>Session state (\<open>ProjectManager\<close>, \<open>AgentState\<close>)\<close>

text \<open>
  Modelled from the spec: the classes \<open>ProjectManager\<close> and \<open>AgentState\<close> are not among the
  sources. Section 3 of the specification gives the session state as the flags
  \<open>active\<close> and \<open>completed\<close> and an append-only, ordered message log, and section 6 gives
  the operations: append a user or a system message, read the conversation, read the
  latest user message (or none), test whether the latest message is from the user, set
  either flag, create an objective.
\<close>

definition add_message :: "string \<Rightarrow> message \<Rightarrow> world \<Rightarrow> world" where
  "add_message project_name m s =
     record_event (AddMessage project_name m)
       (s\<lparr>messages := (messages s)(project_name := messages s project_name @ [m])\<rparr>)"

definition add_message_from_devika :: "string \<Rightarrow> string \<Rightarrow> world \<Rightarrow> world" where
  "add_message_from_devika project_name txt = add_message project_name (Message System txt)"

definition add_message_from_user :: "string \<Rightarrow> string \<Rightarrow> world \<Rightarrow> world" where
  "add_message_from_user project_name txt = add_message project_name (Message User txt)"

definition create_project :: "string \<Rightarrow> world \<Rightarrow> world" where
  "create_project project_name s = record_event (CreateProject project_name) s"

definition set_agent_active :: "string \<Rightarrow> bool \<Rightarrow> world \<Rightarrow> world" where
  "set_agent_active project_name b s =
     record_event (SetAgentActive project_name b)
       (s\<lparr>agent_active := (agent_active s)(project_name := b)\<rparr>)"

definition set_agent_completed :: "string \<Rightarrow> bool \<Rightarrow> world \<Rightarrow> world" where
  "set_agent_completed project_name b s =
     record_event (SetAgentCompleted project_name b)
       (s\<lparr>agent_completed := (agent_completed s)(project_name := b)\<rparr>)"

definition get_all_messages_formatted :: "env \<Rightarrow> string \<Rightarrow> world \<Rightarrow> string list" where
  "get_all_messages_formatted env project_name s = map (format_message env) (messages s project_name)"

definition get_latest_message_from_user :: "string \<Rightarrow> world \<Rightarrow> message option" where
  "get_latest_message_from_user project_name s =
     (case filter (\<lambda>m. origin m = User) (messages s project_name) of
        [] \<Rightarrow> None
      | m # ms \<Rightarrow> Some (last (m # ms)))"

definition validate_last_message_is_from_user :: "string \<Rightarrow> world \<Rightarrow> bool" where
  "validate_last_message_is_from_user project_name s =
     (case messages s project_name of
        [] \<Rightarrow> False
      | m # ms \<Rightarrow> origin (last (m # ms)) = User)"

text \<open>
  A message appended by another writer (the interface layer that receives the user's
  reply) while the orchestrator sleeps.
\<close>

definition message_arrives :: "string \<Rightarrow> message \<Rightarrow> world \<Rightarrow> world" where
  "message_arrives project_name m s =
     record_event (MessageArrived project_name m)
       (s\<lparr>messages := (messages s)(project_name := messages s project_name @ [m])\<rparr>)"

fun messages_arrive :: "string \<Rightarrow> message list \<Rightarrow> world \<Rightarrow> world" where
  "messages_arrive project_name [] s = s"
| "messages_arrive project_name (m # ms) s =
     messages_arrive project_name ms (message_arrives project_name m s)"

subsection \<open>Strings\<close>

text \<open>
  Strings are lists of 8-bit characters. \<open>strip\<close> and \<open>lower\<close> are Python's \<open>str.strip()\<close>
  and \<open>str.lower()\<close> on ASCII text: the whitespace characters are the codes 9 to 13, 28 to
  31 and 32, and the letters \<open>A\<close> to \<open>Z\<close> are mapped to \<open>a\<close> to \<open>z\<close>. Characters beyond
  ASCII are left as they are.
\<close>

definition is_space :: "char \<Rightarrow> bool" where
  "is_space c = (let n = (of_char c :: nat) in (9 \<le> n \<and> n \<le> 13) \<or> (28 \<le> n \<and> n \<le> 32))"

definition strip :: "string \<Rightarrow> string" where
  "strip s = rev (dropWhile is_space (rev (dropWhile is_space s)))"

definition lower_char :: "char \<Rightarrow> char" where
  "lower_char c = (let n = (of_char c :: nat) in if 65 \<le> n \<and> n \<le> 90 then char_of (n + 32) else c)"

definition lower :: "string \<Rightarrow> string" where
  "lower s = map lower_char s"

text \<open>\<open>sep.join(xs)\<close>\<close>

fun join :: "string \<Rightarrow> string list \<Rightarrow> string" where
  "join sep [] = []"
| "join sep [x] = x"
| "join sep (x # y # ys) = x @ sep @ join sep (y # ys)"

text \<open>\<open>s.replace(" ", "%20")\<close>\<close>

definition replace_space :: "string \<Rightarrow> string" where
  "replace_space s = concat (map (\<lambda>c. if c = CHR '' '' then ''%20'' else [c]) s)"

subsection \<open>\<open>Agent.search_queries\<close> (lines 65 to 89)\<close>

text \<open>The body of the loop after the query is normalised (lines 78 to 87): the formatted content.\<close>

definition search_one :: "env \<Rightarrow> string \<Rightarrow> string \<Rightarrow> world \<Rightarrow> string outcome" where
  "search_one env project_name query s0 =
     and_then (invoke (SearchEngineSearch query) (search_engine_search env query) s0) (\<lambda>_ s.
     and_then (invoke SearchEngineGetFirstLink (search_engine_get_first_link env) s) (\<lambda>result_url s.
     and_then (invoke (BrowserGoTo result_url) (browser_go_to env result_url) s) (\<lambda>_ s.
     and_then (invoke (BrowserScreenshot project_name) (browser_screenshot env project_name) s) (\<lambda>_ s.
     and_then (invoke BrowserExtractText (browser_extract_text env) s) (\<lambda>result_content s.
     invoke (FormatterExecute result_content project_name)
       (formatter_execute env result_content project_name) s)))))"

text \<open>
  The loop over the queries. The dictionary \<open>results\<close> is an association list in
  insertion order; \<open>results[query] = v\<close> is \<open>AList.update\<close>, which overwrites the value of a
  key already present and appends a new key.
\<close>

fun search_queries_loop ::
  "env \<Rightarrow> string \<Rightarrow> string list \<Rightarrow> (string \<times> string) list \<Rightarrow> world \<Rightarrow> (string \<times> string) list outcome" where
  "search_queries_loop env project_name [] results s = Return results s"
| "search_queries_loop env project_name (q # qs) results s0 =
     (let query = lower (strip q) in
      and_then (search_one env project_name query s0) (\<lambda>formatted s.
      search_queries_loop env project_name qs (AList.update query formatted results) s))"

definition search_queries :: "env \<Rightarrow> string list \<Rightarrow> string \<Rightarrow> world \<Rightarrow> (string \<times> string) list outcome" where
  "search_queries env qs project_name s = search_queries_loop env project_name qs [] s"

subsection \<open>\<open>Agent.update_contextual_keywords\<close> (lines 91 to 100)\<close>

definition add_keyword :: "world \<Rightarrow> string \<times> real \<Rightarrow> world" where
  "add_keyword s keyword =
     s\<lparr>collected_context_keywords := insert (fst keyword) (collected_context_keywords s)\<rparr>"

definition update_contextual_keywords :: "env \<Rightarrow> string \<Rightarrow> world \<Rightarrow> string set outcome" where
  "update_contextual_keywords env sentence s0 =
     and_then (invoke (ExtractKeywords sentence) (extract_keywords env sentence) s0) (\<lambda>keywords s.
     (let s' = foldl add_keyword s keywords in Return (collected_context_keywords s') s'))"

text \<open>A sequence of calls, one per sentence, each result kept.\<close>

fun update_sequence :: "env \<Rightarrow> string list \<Rightarrow> world \<Rightarrow> (string set) list outcome" where
  "update_sequence env [] s = Return [] s"
| "update_sequence env (sentence # rest) s0 =
     and_then (update_contextual_keywords env sentence s0) (\<lambda>ks s.
     and_then (update_sequence env rest s) (\<lambda>kss s. Return (ks # kss) s))"

subsection \<open>\<open>Agent.make_decision\<close> (lines 102 to 154)\<close>

text \<open>One item of the decision (the body of the loop, lines 109 to 152).\<close>

definition make_decision_item :: "env \<Rightarrow> string \<Rightarrow> decision_item \<Rightarrow> world \<Rightarrow> unit outcome" where
  "make_decision_item env project_name item s0 =
     (let function = item_function item; args = item_args item; reply = item_reply item in
      and_then (perform (add_message_from_devika project_name reply) s0) (\<lambda>_ s.
      if function = ''generate_pdf_document'' then
        and_then (subscript args ''user_prompt'' s) (\<lambda>user_prompt s.
        and_then (invoke (ReporterExecute [user_prompt] [] project_name)
                    (reporter_execute env [user_prompt] [] project_name) s) (\<lambda>markdown s.
        and_then (invoke (MarkdownToPdf markdown project_name)
                    (markdown_to_pdf env markdown project_name) s) (\<lambda>out_pdf_file s.
        (let project_name_space_url = replace_space project_name;
             pdf_download_url =
               ''http://127.0.0.1:1337/api/download-project-pdf?project_name='' @ project_name_space_url;
             response =
               ''I have generated the PDF document. You can download it from here: '' @ pdf_download_url in
         and_then (invoke (BrowserGoTo pdf_download_url) (browser_go_to env pdf_download_url) s) (\<lambda>_ s.
         and_then (invoke (BrowserScreenshot project_name) (browser_screenshot env project_name) s) (\<lambda>_ s.
         perform (add_message_from_devika project_name response) s))))))
      else if function = ''browser_interaction'' then
        and_then (subscript args ''user_prompt'' s) (\<lambda>user_prompt s.
        invoke (StartInteraction (base_model env) user_prompt project_name)
          (start_interaction env (base_model env) user_prompt project_name) s)
      else if function = ''coding_project'' then
        and_then (subscript args ''user_prompt'' s) (\<lambda>user_prompt s.
        and_then (invoke (PlannerExecute user_prompt (Some project_name))
                    (planner_execute env user_prompt (Some project_name)) s) (\<lambda>plan s.
        and_then (invoke (PlannerParseResponse plan) (planner_parse_response env plan) s) (\<lambda>planner_response s.
        and_then (invoke (ResearcherExecute plan (collected_context_keywords s) project_name)
                    (researcher_execute env plan (collected_context_keywords s) project_name) s) (\<lambda>research s.
        and_then (search_queries env (queries research) project_name s) (\<lambda>search_results s.
        and_then (invoke (CoderExecute plan (ask_user research) search_results project_name)
                    (coder_execute env plan (ask_user research) search_results project_name) s) (\<lambda>code s.
        invoke (CoderSaveCode code project_name) (coder_save_code_to_project env code project_name) s))))))
      else Return () s))"

fun make_decision_loop :: "env \<Rightarrow> string \<Rightarrow> decision_item list \<Rightarrow> world \<Rightarrow> unit outcome" where
  "make_decision_loop env project_name [] s = Return () s"
| "make_decision_loop env project_name (item # items) s0 =
     and_then (make_decision_item env project_name item s0) (\<lambda>_ s.
     make_decision_loop env project_name items s)"

definition make_decision :: "env \<Rightarrow> string \<Rightarrow> string \<Rightarrow> world \<Rightarrow> unit outcome" where
  "make_decision env prompt project_name s0 =
     and_then (invoke (DecisionExecute prompt project_name) (decision_execute env prompt project_name) s0)
       (\<lambda>decision s.
     make_decision_loop env project_name decision s)"

subsection \<open>\<open>Action.execute\<close> (roles/action/action.py) and \<open>Netlify.deploy\<close> (services/netlify.py)\<close>

text \<open>The conversation is a string (\<open>Inl\<close>) or a list of strings (\<open>Inr\<close>); a string is wrapped in a list.\<close>

definition action_execute :: "env \<Rightarrow> string + string list \<Rightarrow> string \<Rightarrow> world \<Rightarrow> (string \<times> string) outcome" where
  "action_execute env conversation project_name s =
     (let conversation = (case conversation of Inl str \<Rightarrow> [str] | Inr strs \<Rightarrow> strs) in
      invoke (ActionExecute conversation project_name) (action__execute env conversation project_name) s)"

text \<open>\<open>Netlify().deploy(project_name)\<close>: the constructor reads the API key, then \<open>deploy\<close> runs.\<close>

definition netlify_deploy :: "env \<Rightarrow> string \<Rightarrow> world \<Rightarrow> (string \<times> string) list outcome" where
  "netlify_deploy env project_name s0 =
     and_then (invoke ConfigGetNetlifyApiKey (config_get_netlify_api_key env) s0) (\<lambda>api_key s.
     and_then (invoke (GetProjectPath project_name) (get_project_path env project_name) s) (\<lambda>project_path s.
     and_then (invoke (NetlifyCreateSite api_key) (netlify_create_site env api_key) s) (\<lambda>site s.
     and_then (subscript site ''id'' s) (\<lambda>site_id s.
     invoke (NetlifyDeploySite api_key site_id project_path)
       (netlify_deploy_site env api_key site_id project_path) s))))"

subsection \<open>\<open>Agent.subsequent_execute\<close> (lines 156 to 243)\<close>

text \<open>
  Lines 160 to 167: up to and including the narration message. The result is what the
  rest of the method reads: the conversation, the code rendering, the narration and the
  selected action kind.
\<close>

definition subsequent_execute_select ::
  "env \<Rightarrow> string \<Rightarrow> world \<Rightarrow> (string list \<times> string \<times> string \<times> string) outcome" where
  "subsequent_execute_select env project_name s0 =
     and_then (perform (set_agent_active project_name True) s0) (\<lambda>_ s.
     (let conversation = get_all_messages_formatted env project_name s in
      and_then (invoke (CodeToMarkdownConvert project_name) (code_to_markdown_convert env project_name) s)
        (\<lambda>code_markdown s.
      and_then (action_execute env (Inr conversation) project_name s) (\<lambda>(response, action) s.
      and_then (perform (add_message_from_devika project_name response) s) (\<lambda>_ s.
      Return (conversation, code_markdown, response, action) s)))))"

text \<open>
  Lines 173 to 238: the \<open>if\<close>/\<open>elif\<close> chain. The local variable \<open>os_system\<close> is unassigned
  (\<open>None\<close>) when the chain is entered; line 181, in the \<open>run\<close> branch, is its only
  assignment. Python evaluates the arguments of a call before the call, so a branch that
  reads the unassigned variable raises before its role is invoked.
\<close>

definition subsequent_execute_dispatch ::
  "env \<Rightarrow> string \<Rightarrow> string \<Rightarrow> string list \<Rightarrow> string \<Rightarrow> string \<Rightarrow> world \<Rightarrow> unit outcome" where
  "subsequent_execute_dispatch env prompt project_name conversation code_markdown action s0 =
     (let os_system = (None :: string option) in
      if action = ''answer'' then
        and_then (invoke (AnswerExecute conversation code_markdown project_name)
                    (answer_execute env conversation code_markdown project_name) s0) (\<lambda>response s.
        perform (add_message_from_devika project_name response) s)
      else if action = ''run'' then
        (let os_system = Some (platform_platform env) in
         and_then (invoke (GetProjectPath project_name) (get_project_path env project_name) s0) (\<lambda>project_path s.
         and_then (read_local ''os_system'' os_system s) (\<lambda>os_system_value s.
         invoke (RunnerExecute conversation code_markdown os_system_value project_path project_name)
           (runner_execute env conversation code_markdown os_system_value project_path project_name) s)))
      else if action = ''deploy'' then
        and_then (netlify_deploy env project_name s0) (\<lambda>deploy_metadata s.
        and_then (subscript deploy_metadata ''deploy_url'' s) (\<lambda>deploy_url s.
        (let response = json_dumps env (JObject
               [(''message'', JString ''Done! I deployed your project on Netflify.''),
                (''deploy_url'', JString deploy_url)]) in
         perform (add_message_from_devika project_name response) s)))
      else if action = ''feature'' then
        and_then (read_local ''os_system'' os_system s0) (\<lambda>os_system_value s.
        and_then (invoke (FeatureExecute conversation code_markdown os_system_value project_name)
                    (feature_execute env conversation code_markdown os_system_value project_name) s) (\<lambda>code s.
        invoke (FeatureSaveCode code project_name) (feature_save_code_to_project env code project_name) s))
      else if action = ''bug'' then
        and_then (read_local ''os_system'' os_system s0) (\<lambda>os_system_value s.
        and_then (invoke (PatcherExecute conversation code_markdown [] prompt os_system_value project_name)
                    (patcher_execute env conversation code_markdown [] prompt os_system_value project_name) s)
          (\<lambda>code s.
        invoke (PatcherSaveCode code project_name) (patcher_save_code_to_project env code project_name) s))
      else if action = ''report'' then
        and_then (invoke (ReporterExecute conversation code_markdown project_name)
                    (reporter_execute env conversation code_markdown project_name) s0) (\<lambda>markdown s.
        and_then (invoke (MarkdownToPdf markdown project_name)
                    (markdown_to_pdf env markdown project_name) s) (\<lambda>out_pdf_file s.
        (let project_name_space_url = replace_space project_name;
             pdf_download_url =
               ''http://127.0.0.1:1337/api/download-project-pdf?project_name='' @ project_name_space_url;
             response =
               ''I have generated the PDF document. You can download it from here: '' @ pdf_download_url in
         and_then (invoke (BrowserGoTo pdf_download_url) (browser_go_to env pdf_download_url) s) (\<lambda>_ s.
         and_then (invoke (BrowserScreenshot project_name) (browser_screenshot env project_name) s) (\<lambda>_ s.
         perform (add_message_from_devika project_name response) s)))))
      else Return () s0)"

text \<open>Lines 240 to 243.\<close>

definition subsequent_execute_finish :: "string \<Rightarrow> world \<Rightarrow> unit outcome" where
  "subsequent_execute_finish project_name s0 =
     and_then (perform (set_agent_active project_name False) s0) (\<lambda>_ s.
     perform (set_agent_completed project_name True) s)"

definition subsequent_execute :: "env \<Rightarrow> string \<Rightarrow> string \<Rightarrow> world \<Rightarrow> unit outcome" where
  "subsequent_execute env prompt project_name s0 =
     and_then (subsequent_execute_select env project_name s0)
       (\<lambda>(conversation, code_markdown, response, action) s.
     and_then (subsequent_execute_dispatch env prompt project_name conversation code_markdown action s) (\<lambda>_ s.
     subsequent_execute_finish project_name s))"

subsection \<open>\<open>Agent.execute\<close> (lines 245 to 344)\<close>

text \<open>\<open>if project_name_from_user:\<close> holds for a name that is neither \<open>None\<close> nor empty.\<close>

definition given_name :: "string option \<Rightarrow> string option" where
  "given_name v = (case v of None \<Rightarrow> None | Some n \<Rightarrow> if n = [] then None else Some n)"

text \<open>Lines 249 to 293: planning and research. The result is the project name, the plan and the research.\<close>

definition execute_prepare ::
  "env \<Rightarrow> string \<Rightarrow> string option \<Rightarrow> world \<Rightarrow> (string \<times> string \<times> research) outcome" where
  "execute_prepare env prompt project_name_from_user s0 =
     and_then (case given_name project_name_from_user of
                 Some n \<Rightarrow> perform (add_message_from_user n prompt) s0
               | None \<Rightarrow> Return () s0) (\<lambda>_ s.
     and_then (invoke (PlannerExecute prompt project_name_from_user)
                 (planner_execute env prompt project_name_from_user) s) (\<lambda>plan s.
     and_then (invoke (PlannerParseResponse plan) (planner_parse_response env plan) s) (\<lambda>planner_response s.
     and_then (case given_name project_name_from_user of
                 Some n \<Rightarrow> Return n s
               | None \<Rightarrow>
                   and_then (perform (create_project (project planner_response)) s) (\<lambda>_ s.
                   and_then (perform (add_message_from_user (project planner_response) prompt) s) (\<lambda>_ s.
                   Return (project planner_response) s))) (\<lambda>project_name s.
     and_then (perform (set_agent_active project_name True) s) (\<lambda>_ s.
     and_then (perform (add_message_from_devika project_name (reply planner_response)) s) (\<lambda>_ s.
     and_then (perform (add_message_from_devika project_name (json_dumps env (plans planner_response))) s) (\<lambda>_ s.
     and_then (perform (add_message_from_devika project_name (''In summary: '' @ summary planner_response)) s)
       (\<lambda>_ s.
     and_then (update_contextual_keywords env (focus planner_response) s) (\<lambda>_ s.
     and_then (invoke (ResearcherExecute plan (collected_context_keywords s) project_name)
                 (researcher_execute env plan (collected_context_keywords s) project_name) s) (\<lambda>research s.
     (let queries_combined = join '', '' (queries research) in
      and_then (perform (add_message_from_devika project_name
                  (''I am browsing the web to research the following queries: '' @ queries_combined @
                   ''. If I need anything, I will make sure to ask you.'')) s) (\<lambda>_ s.
      Return (project_name, plan, research) s))))))))))))"

text \<open>The acknowledgement of line 315; its last four characters are the UTF-8 bytes of U+1F64C.\<close>

definition thanks :: string where
  "thanks = ''Thanks! '' @ [char_of (240 :: nat), char_of (159 :: nat), char_of (153 :: nat), char_of (140 :: nat)]"

text \<open>
  Lines 302 to 316: the poll loop. The loop has no exit but the acceptance of a reply, so
  it is run against a schedule: one entry per poll, the messages other writers appended
  since the poll before (since the question, for the first poll). When the schedule is
  used up and no poll has accepted, the loop has not returned: the outcome is \<open>Waiting\<close>.
  The result is the accepted reply (the new value of \<open>ask_user_prompt\<close>).
\<close>

fun wait_for_user_query :: "string \<Rightarrow> message list list \<Rightarrow> world \<Rightarrow> string outcome" where
  "wait_for_user_query project_name [] s = Waiting s"
| "wait_for_user_query project_name (arrived # later) s0 =
     (let s = record_event (LoggerInfo ''Waiting for user query...'') (messages_arrive project_name arrived s0);
          latest_message_from_user = get_latest_message_from_user project_name s;
          validate_last_message_is_from_user = validate_last_message_is_from_user project_name s in
      case latest_message_from_user of
        Some m \<Rightarrow>
          if validate_last_message_is_from_user
          then Return (body m) (record_event (Sleep 5) (add_message_from_devika project_name thanks s))
          else wait_for_user_query project_name later (record_event (Sleep 5) s)
      | None \<Rightarrow> wait_for_user_query project_name later (record_event (Sleep 5) s))"

text \<open>
  Lines 295 to 318: the suspension for the user's input. \<open>question\<close> is the value of the
  local \<open>ask_user\<close> (the researcher's clarifying question); the result is \<open>ask_user_prompt\<close>.
\<close>

definition execute_ask_user :: "string \<Rightarrow> string \<Rightarrow> message list list \<Rightarrow> world \<Rightarrow> string outcome" where
  "execute_ask_user project_name question arrivals s0 =
     (let ask_user_prompt = ''Nothing from the user.'' in
      and_then (if question \<noteq> []
                then and_then (perform (add_message_from_devika project_name question) s0) (\<lambda>_ s.
                     and_then (perform (set_agent_active project_name False) s) (\<lambda>_ s.
                     wait_for_user_query project_name arrivals s))
                else Return ask_user_prompt s0) (\<lambda>ask_user_prompt s.
      and_then (perform (set_agent_active project_name True) s) (\<lambda>_ s.
      Return ask_user_prompt s)))"

text \<open>Lines 320 to 344: research, coding and completion.\<close>

definition execute_code :: "env \<Rightarrow> string \<Rightarrow> string \<Rightarrow> string list \<Rightarrow> string \<Rightarrow> world \<Rightarrow> unit outcome" where
  "execute_code env project_name plan qs ask_user_prompt s0 =
     and_then (search_queries env qs project_name s0) (\<lambda>search_results s.
     and_then (invoke (CoderExecute plan ask_user_prompt search_results project_name)
                 (coder_execute env plan ask_user_prompt search_results project_name) s) (\<lambda>code s.
     and_then (invoke (CoderSaveCode code project_name) (coder_save_code_to_project env code project_name) s)
       (\<lambda>_ s.
     and_then (perform (add_message_from_devika project_name
                 ''I have completed the coding task. You can now run the project.'') s) (\<lambda>_ s.
     and_then (perform (set_agent_active project_name False) s) (\<lambda>_ s.
     perform (set_agent_completed project_name True) s)))))"

definition execute :: "env \<Rightarrow> string \<Rightarrow> string option \<Rightarrow> message list list \<Rightarrow> world \<Rightarrow> unit outcome" where
  "execute env prompt project_name_from_user arrivals s0 =
     and_then (execute_prepare env prompt project_name_from_user s0) (\<lambda>(project_name, plan, research) s.
     and_then (execute_ask_user project_name (ask_user research) arrivals s) (\<lambda>ask_user_prompt s.
     execute_code env project_name plan (queries research) ask_user_prompt s))"

subsection \<open>Vocabulary of the statements\<close>

text \<open>The events a run has added to the trace: those of \<open>s'\<close> after the ones of \<open>s\<close>.\<close>

definition events_since :: "world \<Rightarrow> world \<Rightarrow> event list" where
  "events_since s s' = drop (length (trace s)) (trace s')"

text \<open>The six action kinds the \<open>if\<close>/\<open>elif\<close> chain of \<open>subsequent_execute\<close> compares with.\<close>

definition action_kinds :: "string list" where
  "action_kinds = [''answer'', ''run'', ''deploy'', ''feature'', ''bug'', ''report'']"

text \<open>
  The world a poll of the loop observes: the messages arrived since the poll before are
  in the log, and the poll has logged that it is waiting.
\<close>

definition polled :: "string \<Rightarrow> message list \<Rightarrow> world \<Rightarrow> world" where
  "polled p arrived s = record_event (LoggerInfo ''Waiting for user query...'') (messages_arrive p arrived s)"

text \<open>The outcome of a run that is still in the poll loop when the schedule is used up.\<close>

fun waiting :: "'a outcome \<Rightarrow> bool" where
  "waiting (Waiting _) = True"
| "waiting _ = False"

text \<open>
  \<open>grows P s t\<close>: the world \<open>t\<close> is \<open>s\<close> after more effects, each of which satisfies \<open>P\<close>, and
  it has not lost a keyword.
\<close>

definition grows :: "(event \<Rightarrow> bool) \<Rightarrow> world \<Rightarrow> world \<Rightarrow> bool" where
  "grows P s t \<longleftrightarrow>
     (\<exists>evs. trace t = trace s @ evs \<and> list_all P evs)
     \<and> collected_context_keywords s \<subseteq> collected_context_keywords t"

text \<open>The events of the search loop, and the events that set \<open>active\<close> to false.\<close>

fun search_event :: "event \<Rightarrow> bool" where
  "search_event (SearchEngineSearch _) = True"
| "search_event SearchEngineGetFirstLink = True"
| "search_event (BrowserGoTo _) = True"
| "search_event (BrowserScreenshot _) = True"
| "search_event BrowserExtractText = True"
| "search_event (FormatterExecute _ _) = True"
| "search_event _ = False"

fun deactivation :: "event \<Rightarrow> bool" where
  "deactivation (SetAgentActive _ b) = (\<not> b)"
| "deactivation _ = False"

subsection \<open>URL encoding, as the specification words it\<close>




subsection \<open>A concrete environment\<close>

text \<open>
  An empty session state, and roles and collaborators that always answer. The action
  selector answers \<open>action\<close>, the researcher asks \<open>question\<close>, the decision role returns
  \<open>items\<close>; the search engine and the browser answer from the trace (the first link is
  made of the query searched last, the text of the page visited last); the keywords of a
  sentence are the sentence and its lower-case form.
\<close>

definition demo_world :: world where
  "demo_world = \<lparr>messages = (\<lambda>_. []), agent_active = (\<lambda>_. False), agent_completed = (\<lambda>_. False),
     collected_context_keywords = {}, trace = []\<rparr>"

definition demo_env :: "string \<Rightarrow> string \<Rightarrow> decision_item list \<Rightarrow> env" where
  "demo_env action question items = \<lparr>
     planner_execute = (\<lambda>prompt name s. Inr ''1. write the app''),
     planner_parse_response = (\<lambda>plan s. Inr \<lparr>project = ''todo-app'', reply = ''On it.'', focus = ''todo app'',
        plans = JObject [(''1'', JString ''write the app'')], summary = ''a todo app''\<rparr>),
     researcher_execute = (\<lambda>plan keywords name s. Inr \<lparr>queries = ['' Alpha'', ''BETA ''], ask_user = question\<rparr>),
     formatter_execute = (\<lambda>content name s. Inr (''formatted '' @ content)),
     coder_execute = (\<lambda>plan user_context search_results name s. Inr [(''app.py'', ''pass'')]),
     coder_save_code_to_project = (\<lambda>files name s. Inr ()),
     action__execute = (\<lambda>conversation name s. Inr (''Let me see.'', action)),
     answer_execute = (\<lambda>conversation code_markdown name s. Inr ''It is a todo app.''),
     runner_execute = (\<lambda>conversation code_markdown os_system path name s. Inr ()),
     feature_execute = (\<lambda>conversation code_markdown os_system name s. Inr [(''app.py'', ''pass'')]),
     feature_save_code_to_project = (\<lambda>files name s. Inr ()),
     patcher_execute = (\<lambda>conversation code_markdown commands err os_system name s. Inr [(''app.py'', ''pass'')]),
     patcher_save_code_to_project = (\<lambda>files name s. Inr ()),
     reporter_execute = (\<lambda>conversation code_markdown name s. Inr ''# Report''),
     decision_execute = (\<lambda>prompt name s. Inr items),
     extract_keywords = (\<lambda>sentence s. Inr [(sentence, 1 / 2), (lower sentence, 1 / 4)]),
     search_engine_search = (\<lambda>query s. Inr ()),
     search_engine_get_first_link = (\<lambda>s. case last (trace s) of
        SearchEngineSearch query \<Rightarrow> Inr (''http://example.org/'' @ query)
      | _ \<Rightarrow> Inl (Failure ''no search'')),
     browser_go_to = (\<lambda>url s. Inr ()),
     browser_screenshot = (\<lambda>name s. Inr ()),
     browser_extract_text = (\<lambda>s. case rev (trace s) of
        _ # BrowserGoTo url # _ \<Rightarrow> Inr (''text of '' @ url)
      | _ \<Rightarrow> Inl (Failure ''no page'')),
     markdown_to_pdf = (\<lambda>markdown name s. Inr (name @ ''.pdf'')),
     start_interaction = (\<lambda>model prompt name s. Inr ()),
     code_to_markdown_convert = (\<lambda>name s. Inr ''# app.py''),
     get_project_path = (\<lambda>name s. Inr (''/projects/'' @ name)),
     config_get_netlify_api_key = (\<lambda>s. Inr ''key''),
     netlify_create_site = (\<lambda>key s. Inr [(''id'', ''site-1'')]),
     netlify_deploy_site = (\<lambda>key site path s. Inr [(''deploy_url'', ''http://site-1.example.org'')]),
     json_dumps = (\<lambda>j. ''{}''),
     platform_platform = ''Linux'',
     format_message = (\<lambda>m. (case origin m of User \<Rightarrow> ''User: '' | System \<Rightarrow> ''Devika: '') @ body m),
     base_model = ''model''\<rparr>"

text \<open>The world after lines 160 to 167 of \<open>subsequent_execute\<close> on the empty session state.\<close>

definition demo_selected :: world where
  "demo_selected = add_message_from_devika ''todo-app'' ''Let me see.''
     (record_event (ActionExecute [] ''todo-app'')
       (record_event (CodeToMarkdownConvert ''todo-app'') (set_agent_active ''todo-app'' True demo_world)))"

section \<open>Basic facts\<close>

lemma and_then_Return_iff:
  "and_then m f = Return y t \<longleftrightarrow> (\<exists>x s. m = Return x s \<and> f x s = Return y t)"
  by (cases m) auto

lemma invoke_Return_iff:
  "invoke ev callee s = Return x t \<longleftrightarrow> callee s = Inr x \<and> t = record_event ev s"
  by (auto simp: invoke_def split: sum.splits)

lemma perform_Return_iff:
  "perform f s = Return x t \<longleftrightarrow> t = f s"
  by (auto simp: perform_def)

lemma record_event_fields [simp]:
  "trace (record_event ev s) = trace s @ [ev]"
  "messages (record_event ev s) = messages s"
  "agent_active (record_event ev s) = agent_active s"
  "agent_completed (record_event ev s) = agent_completed s"
  "collected_context_keywords (record_event ev s) = collected_context_keywords s"
  by (simp_all add: record_event_def)

lemma add_message_fields [simp]:
  "trace (add_message p m s) = trace s @ [AddMessage p m]"
  "messages (add_message p m s) = (messages s)(p := messages s p @ [m])"
  "agent_active (add_message p m s) = agent_active s"
  "agent_completed (add_message p m s) = agent_completed s"
  "collected_context_keywords (add_message p m s) = collected_context_keywords s"
  by (simp_all add: add_message_def)

lemma set_agent_active_fields [simp]:
  "trace (set_agent_active p b s) = trace s @ [SetAgentActive p b]"
  "messages (set_agent_active p b s) = messages s"
  "agent_active (set_agent_active p b s) = (agent_active s)(p := b)"
  "agent_completed (set_agent_active p b s) = agent_completed s"
  "collected_context_keywords (set_agent_active p b s) = collected_context_keywords s"
  by (simp_all add: set_agent_active_def)

lemma set_agent_completed_fields [simp]:
  "trace (set_agent_completed p b s) = trace s @ [SetAgentCompleted p b]"
  "messages (set_agent_completed p b s) = messages s"
  "agent_active (set_agent_completed p b s) = agent_active s"
  "agent_completed (set_agent_completed p b s) = (agent_completed s)(p := b)"
  "collected_context_keywords (set_agent_completed p b s) = collected_context_keywords s"
  by (simp_all add: set_agent_completed_def)

lemma create_project_fields [simp]:
  "trace (create_project p s) = trace s @ [CreateProject p]"
  "messages (create_project p s) = messages s"
  "agent_active (create_project p s) = agent_active s"
  "agent_completed (create_project p s) = agent_completed s"
  "collected_context_keywords (create_project p s) = collected_context_keywords s"
  by (simp_all add: create_project_def)

lemma events_since_append [simp]: "trace s' = trace s @ evs \<Longrightarrow> events_since s s' = evs"
  by (simp add: events_since_def)

lemmas prim_defs = perform_def invoke_def read_local_def subscript_def record_event_def add_message_def
  add_message_from_devika_def add_message_from_user_def create_project_def set_agent_active_def
  set_agent_completed_def get_all_messages_formatted_def message_arrives_def


section \<open>Strings\<close>









section \<open>The keyword accumulator\<close>

lemma foldl_add_keyword_eq:
  "foldl add_keyword s kws =
     s\<lparr>collected_context_keywords := collected_context_keywords s \<union> fst ` set kws\<rparr>"
  by (induction kws arbitrary: s) (auto simp: add_keyword_def)

lemma update_contextual_keywords_cases:
  "update_contextual_keywords env sentence s =
     (case extract_keywords env sentence s of
        Inl e \<Rightarrow> Raise e (record_event (ExtractKeywords sentence) s)
      | Inr kws \<Rightarrow>
          Return (collected_context_keywords s \<union> fst ` set kws)
            ((record_event (ExtractKeywords sentence) s)
               \<lparr>collected_context_keywords := collected_context_keywords s \<union> fst ` set kws\<rparr>))"
  by (simp add: update_contextual_keywords_def invoke_def Let_def foldl_add_keyword_eq split: sum.splits)

lemma update_contextual_keywords_Return:
  assumes "update_contextual_keywords env sentence s = Return ks s'"
  shows "ks = collected_context_keywords s'" and "collected_context_keywords s \<subseteq> collected_context_keywords s'"
    and "trace s' = trace s @ [ExtractKeywords sentence]"
    and "messages s' = messages s" and "agent_active s' = agent_active s"
    and "agent_completed s' = agent_completed s"
  using assms by (force simp: update_contextual_keywords_cases split: sum.splits)+

lemma update_sequence_Return:
  "update_sequence env sentences s = Return kss s' \<Longrightarrow>
     length kss = length sentences \<and> sorted_wrt (\<subseteq>) (collected_context_keywords s # kss)
     \<and> collected_context_keywords s' = last (collected_context_keywords s # kss)"
proof (induction sentences arbitrary: s kss)
  case Nil
  then show ?case by simp
next
  case (Cons sentence rest)
  from Cons.prems obtain ks s1 kss1 where
    one: "update_contextual_keywords env sentence s = Return ks s1"
    and more: "update_sequence env rest s1 = Return kss1 s'" and kss: "kss = ks # kss1"
    by (auto simp: and_then_Return_iff)
  note r = update_contextual_keywords_Return [OF one]
  note ih = Cons.IH [OF more]
  have "\<forall>k \<in> set kss1. collected_context_keywords s1 \<subseteq> k"
    using ih by simp
  then have "\<forall>k \<in> set (ks # kss1). collected_context_keywords s \<subseteq> k"
    using r(1,2) by auto
  then show ?case
    using ih r(1) kss by simp
qed

section \<open>The search loop\<close>


section \<open>The download link\<close>



section \<open>The selection phase of \<open>subsequent_execute\<close>\<close>

text \<open>What a returning selection phase has done: its result and its final world are determined.\<close>

lemma select_Return:
  assumes "subsequent_execute_select env p s = Return (conv, md, response, action) s1"
  shows "conv = get_all_messages_formatted env p s"
    and "code_to_markdown_convert env p (set_agent_active p True s) = Inr md"
    and "s1 = add_message_from_devika p response
            (record_event (ActionExecute conv p)
              (record_event (CodeToMarkdownConvert p) (set_agent_active p True s)))"
  using assms
  by (auto simp: subsequent_execute_select_def action_execute_def Let_def and_then_Return_iff
      invoke_Return_iff perform_Return_iff get_all_messages_formatted_def split: prod.splits)

lemma subsequent_execute_after_select:
  assumes "subsequent_execute_select env p s = Return (conv, md, response, action) s1"
  shows "subsequent_execute env prompt p s =
           and_then (subsequent_execute_dispatch env prompt p conv md action s1)
             (\<lambda>_. subsequent_execute_finish p)"
  by (simp add: subsequent_execute_def assms)

section \<open>A run only adds to the trace\<close>

lemma add_message_from_devika_fields [simp]:
  "trace (add_message_from_devika p txt s) = trace s @ [AddMessage p (Message System txt)]"
  "messages (add_message_from_devika p txt s) = (messages s)(p := messages s p @ [Message System txt])"
  "agent_active (add_message_from_devika p txt s) = agent_active s"
  "agent_completed (add_message_from_devika p txt s) = agent_completed s"
  "collected_context_keywords (add_message_from_devika p txt s) = collected_context_keywords s"
  by (simp_all add: add_message_from_devika_def)

lemma add_message_from_user_fields [simp]:
  "trace (add_message_from_user p txt s) = trace s @ [AddMessage p (Message User txt)]"
  "messages (add_message_from_user p txt s) = (messages s)(p := messages s p @ [Message User txt])"
  "agent_active (add_message_from_user p txt s) = agent_active s"
  "agent_completed (add_message_from_user p txt s) = agent_completed s"
  "collected_context_keywords (add_message_from_user p txt s) = collected_context_keywords s"
  by (simp_all add: add_message_from_user_def)

lemma grows_refl [simp]: "grows P s s"
  by (simp add: grows_def)

lemma grows_trans: "grows P s t \<Longrightarrow> grows P t u \<Longrightarrow> grows P s u"
  by (auto simp: grows_def)

lemma grows_prefix: "grows P s t \<Longrightarrow> prefix (trace s) (trace t)"
  by (auto simp: grows_def)

lemma grows_keywords: "grows P s t \<Longrightarrow> collected_context_keywords s \<subseteq> collected_context_keywords t"
  by (simp add: grows_def)

lemma grows_events: "grows P s t \<Longrightarrow> \<exists>evs. trace t = trace s @ evs \<and> list_all P evs"
  by (simp add: grows_def)

lemma grows_record_event: "P ev \<Longrightarrow> grows P s (record_event ev s)"
  by (simp add: grows_def)

lemma grows_add_message_from_devika:
  "P (AddMessage p (Message System txt)) \<Longrightarrow> grows P s (add_message_from_devika p txt s)"
  by (simp add: grows_def)

lemma grows_add_message_from_user:
  "P (AddMessage p (Message User txt)) \<Longrightarrow> grows P s (add_message_from_user p txt s)"
  by (simp add: grows_def)

lemma grows_set_agent_active: "P (SetAgentActive p b) \<Longrightarrow> grows P s (set_agent_active p b s)"
  by (simp add: grows_def)

lemma grows_set_agent_completed: "P (SetAgentCompleted p b) \<Longrightarrow> grows P s (set_agent_completed p b s)"
  by (simp add: grows_def)

lemma grows_create_project: "P (CreateProject p) \<Longrightarrow> grows P s (create_project p s)"
  by (simp add: grows_def)

lemma grows_and_then:
  assumes "grows P s (final_world m)"
    and "\<And>x t. m = Return x t \<Longrightarrow> grows P t (final_world (f x t))"
  shows "grows P s (final_world (and_then m f))"
  using assms by (cases m) (auto intro: grows_trans)

lemma grows_invoke: "P ev \<Longrightarrow> grows P s (final_world (invoke ev callee s))"
  by (simp add: invoke_def grows_record_event split: sum.splits)

lemma grows_perform: "grows P s (f s) \<Longrightarrow> grows P s (final_world (perform f s))"
  by (simp add: perform_def)

lemma grows_subscript: "grows P s (final_world (subscript d k s))"
  by (simp add: subscript_def split: option.splits)

lemma grows_read_local: "grows P s (final_world (read_local n v s))"
  by (simp add: read_local_def split: option.splits)

lemma grows_Return: "grows P s (final_world (Return x s))"
  by simp

lemma grows_if:
  "\<lbrakk>c \<Longrightarrow> grows P s (final_world a); \<not> c \<Longrightarrow> grows P s (final_world b)\<rbrakk>
   \<Longrightarrow> grows P s (final_world (if c then a else b))"
  by simp

lemma grows_case_prod:
  "(\<And>a b. grows P s (final_world (f a b s))) \<Longrightarrow>
   grows P s (final_world ((case x of (a, b) \<Rightarrow> f a b) s))"
  by (cases x) simp

lemmas grows_steps = grows_case_prod grows_and_then grows_invoke grows_perform grows_subscript grows_read_local
  grows_Return grows_if grows_add_message_from_devika grows_add_message_from_user
  grows_set_agent_active grows_set_agent_completed grows_create_project

lemma grows_search_one:
  assumes "\<And>e. search_event e \<Longrightarrow> P e"
  shows "grows P s (final_world (search_one env p q s))"
  unfolding search_one_def by (intro grows_steps assms) simp_all

lemma grows_search_queries_loop:
  assumes "\<And>e. search_event e \<Longrightarrow> P e"
  shows "grows P s (final_world (search_queries_loop env p qs results s))"
proof (induction qs arbitrary: results s)
  case Nil
  then show ?case by simp
next
  case (Cons q qs)
  show ?case
    by (simp add: Let_def) (intro grows_and_then grows_search_one assms Cons.IH)
qed

lemma grows_search_queries:
  assumes "\<And>e. search_event e \<Longrightarrow> P e"
  shows "grows P s (final_world (search_queries env qs p s))"
  by (simp add: search_queries_def grows_search_queries_loop assms)

lemma grows_update_contextual_keywords:
  "P (ExtractKeywords sentence) \<Longrightarrow> grows P s (final_world (update_contextual_keywords env sentence s))"
  by (auto simp: update_contextual_keywords_cases grows_def split: sum.splits)

lemma grows_make_decision_item:
  "grows (\<lambda>_. True) s (final_world (make_decision_item env p item s))"
  unfolding make_decision_item_def Let_def
  by (intro grows_steps grows_search_queries) simp_all

lemma grows_make_decision_loop:
  "grows (\<lambda>_. True) s (final_world (make_decision_loop env p items s))"
proof (induction items arbitrary: s)
  case Nil
  then show ?case by simp
next
  case (Cons item items)
  show ?case
    by simp (intro grows_and_then grows_make_decision_item Cons.IH)
qed

lemma grows_make_decision:
  "grows (\<lambda>_. True) s (final_world (make_decision env prompt p s))"
  unfolding make_decision_def
  by (intro grows_steps grows_make_decision_loop) simp_all

lemma grows_netlify_deploy: "grows (\<lambda>_. True) s (final_world (netlify_deploy env p s))"
  unfolding netlify_deploy_def by (intro grows_steps) simp_all

lemma grows_dispatch:
  "grows (\<lambda>_. True) s (final_world (subsequent_execute_dispatch env prompt p conv md action s))"
  unfolding subsequent_execute_dispatch_def Let_def
  by (intro grows_steps grows_netlify_deploy) simp_all

lemma grows_select:
  "grows (\<lambda>_. True) s (final_world (subsequent_execute_select env p s))"
  unfolding subsequent_execute_select_def Let_def action_execute_def
  by (intro grows_steps) simp_all

lemma grows_subsequent_execute:
  "grows (\<lambda>_. True) s (final_world (subsequent_execute env prompt p s))"
  unfolding subsequent_execute_def subsequent_execute_finish_def
  by (intro grows_steps grows_select grows_dispatch) simp_all

section \<open>The poll loop\<close>

lemma messages_arrive_fields [simp]:
  "messages (messages_arrive p ms s) = (messages s)(p := messages s p @ ms)"
  "trace (messages_arrive p ms s) = trace s @ map (MessageArrived p) ms"
  "agent_active (messages_arrive p ms s) = agent_active s"
  "agent_completed (messages_arrive p ms s) = agent_completed s"
  "collected_context_keywords (messages_arrive p ms s) = collected_context_keywords s"
  by (induction ms arbitrary: s; simp add: message_arrives_def fun_eq_iff)+

lemma last_filter_last:
  "xs \<noteq> [] \<Longrightarrow> P (last xs) \<Longrightarrow> filter P xs \<noteq> [] \<and> last (filter P xs) = last xs"
  by (induction xs rule: rev_induct) simp_all

lemma validate_iff:
  "validate_last_message_is_from_user p s \<longleftrightarrow>
     messages s p \<noteq> [] \<and> origin (last (messages s p)) = User"
  by (simp add: validate_last_message_is_from_user_def split: list.splits)

lemma latest_when_valid:
  assumes "messages s p \<noteq> []" "origin (last (messages s p)) = User"
  shows "get_latest_message_from_user p s = Some (last (messages s p))"
proof -
  from last_filter_last [of "messages s p" "\<lambda>m. origin m = User"] assms
  have ne: "filter (\<lambda>m. origin m = User) (messages s p) \<noteq> []"
    and la: "last (filter (\<lambda>m. origin m = User) (messages s p)) = last (messages s p)"
    by simp_all
  from ne obtain m ms where f: "filter (\<lambda>m. origin m = User) (messages s p) = m # ms"
    by (cases "filter (\<lambda>m. origin m = User) (messages s p)") auto
  from la have "last (m # ms) = last (messages s p)"
    by (simp only: f)
  then show ?thesis
    by (simp only: get_latest_message_from_user_def f list.case)
qed

lemma polled_fields [simp]:
  "messages (polled p arrived s) = (messages s)(p := messages s p @ arrived)"
  "trace (polled p arrived s) = trace s @ map (MessageArrived p) arrived @ [LoggerInfo ''Waiting for user query...'']"
  "agent_active (polled p arrived s) = agent_active s"
  "agent_completed (polled p arrived s) = agent_completed s"
  "collected_context_keywords (polled p arrived s) = collected_context_keywords s"
  by (simp_all add: polled_def)

lemma poll_step_validate:
  "wait_for_user_query p (arrived # later) s =
     (if validate_last_message_is_from_user p (polled p arrived s)
      then Return (body (last (messages (polled p arrived s) p)))
             (record_event (Sleep 5) (add_message_from_devika p thanks (polled p arrived s)))
      else wait_for_user_query p later (record_event (Sleep 5) (polled p arrived s)))"
proof (cases "validate_last_message_is_from_user p (polled p arrived s)")
  case True
  then have v: "messages (polled p arrived s) p \<noteq> []" "origin (last (messages (polled p arrived s) p)) = User"
    unfolding validate_iff by blast+
  have "get_latest_message_from_user p (polled p arrived s) = Some (last (messages (polled p arrived s) p))"
    by (rule latest_when_valid [OF v])
  with True show ?thesis
    by (simp add: Let_def polled_def [symmetric] del: polled_fields)
next
  case False
  then show ?thesis
    by (simp add: Let_def polled_def [symmetric] del: polled_fields split: option.splits)
qed

lemma poll_step:
  "wait_for_user_query p (arrived # later) s =
     (if messages s p @ arrived \<noteq> [] \<and> origin (last (messages s p @ arrived)) = User
      then Return (body (last (messages s p @ arrived)))
             (record_event (Sleep 5) (add_message_from_devika p thanks (polled p arrived s)))
      else wait_for_user_query p later (record_event (Sleep 5) (polled p arrived s)))"
  unfolding poll_step_validate validate_iff by simp

lemma poll_accept:
  "messages s p @ arrived \<noteq> [] \<Longrightarrow> origin (last (messages s p @ arrived)) = User \<Longrightarrow>
   wait_for_user_query p (arrived # later) s =
     Return (body (last (messages s p @ arrived)))
       (record_event (Sleep 5) (add_message_from_devika p thanks (polled p arrived s)))"
  by (simp only: poll_step) simp

lemma poll_reject:
  "\<not> (messages s p @ arrived \<noteq> [] \<and> origin (last (messages s p @ arrived)) = User) \<Longrightarrow>
   wait_for_user_query p (arrived # later) s =
     wait_for_user_query p later (record_event (Sleep 5) (polled p arrived s))"
  by (simp only: poll_step) simp

lemma wait_Return:
  "wait_for_user_query p arrivals s = Return r t \<Longrightarrow>
     (\<exists>log. messages t p = log @ [Message System thanks] \<and> log \<noteq> [] \<and> origin (last log) = User
         \<and> body (last log) = r)
     \<and> (\<exists>evs. trace t = trace s @ evs @ [AddMessage p (Message System thanks), Sleep 5])
     \<and> agent_active t = agent_active s \<and> agent_completed t = agent_completed s
     \<and> collected_context_keywords t = collected_context_keywords s"
proof (induction arrivals arbitrary: s)
  case Nil
  then show ?case by simp
next
  case (Cons arrived later)
  show ?case
  proof (cases "messages s p @ arrived \<noteq> [] \<and> origin (last (messages s p @ arrived)) = User")
    case True
    then have "wait_for_user_query p (arrived # later) s =
        Return (body (last (messages s p @ arrived)))
          (record_event (Sleep 5) (add_message_from_devika p thanks (polled p arrived s)))"
      by (intro poll_accept) simp_all
    with Cons.prems have r: "r = body (last (messages s p @ arrived))"
      and t: "t = record_event (Sleep 5) (add_message_from_devika p thanks (polled p arrived s))"
      by simp_all
    show ?thesis
      using True by (simp add: r t)
  next
    case False
    from Cons.prems have "wait_for_user_query p later (record_event (Sleep 5) (polled p arrived s)) = Return r t"
      unfolding poll_reject [OF False] .
    from Cons.IH [OF this] show ?thesis
      by auto
  qed
qed


lemma ask_user_Return:
  assumes "question \<noteq> []" and "execute_ask_user p question arrivals s = Return r t"
  shows "agent_active t p"
    and "\<exists>log. messages t p = log @ [Message System thanks] \<and> log \<noteq> [] \<and> origin (last log) = User
         \<and> body (last log) = r"
    and "\<exists>evs. trace t = trace s @ [AddMessage p (Message System question), SetAgentActive p False] @ evs @
         [AddMessage p (Message System thanks), Sleep 5, SetAgentActive p True]"
proof -
  from assms obtain t1 where
    w: "wait_for_user_query p arrivals (set_agent_active p False (add_message_from_devika p question s)) = Return r t1"
    and t: "t = set_agent_active p True t1"
    by (auto simp: execute_ask_user_def Let_def and_then_Return_iff perform_Return_iff)
  note k = wait_Return [OF w]
  show "agent_active t p" by (simp add: t)
  show "\<exists>log. messages t p = log @ [Message System thanks] \<and> log \<noteq> [] \<and> origin (last log) = User
         \<and> body (last log) = r"
    using k by (simp add: t)
  show "\<exists>evs. trace t = trace s @ [AddMessage p (Message System question), SetAgentActive p False] @ evs @
         [AddMessage p (Message System thanks), Sleep 5, SetAgentActive p True]"
    using k by (auto simp: t)
qed

section \<open>The decision loop\<close>






section \<open>The phases of \<open>execute\<close> and whole runs\<close>

lemma prepare_Return:
  assumes "execute_prepare env prompt pn s = Return (p, plan, research) s1"
  shows "\<exists>(pr :: planner_response) kws. trace s1 = trace s
           @ (case given_name pn of Some n \<Rightarrow> [AddMessage n (Message User prompt)] | None \<Rightarrow> [])
           @ [PlannerExecute prompt pn, PlannerParseResponse plan]
           @ (case given_name pn of Some n \<Rightarrow> []
              | None \<Rightarrow> [CreateProject p, AddMessage p (Message User prompt)])
           @ [SetAgentActive p True, AddMessage p (Message System (reply pr)),
              AddMessage p (Message System (json_dumps env (plans pr))),
              AddMessage p (Message System (''In summary: '' @ summary pr)),
              ExtractKeywords (focus pr), ResearcherExecute plan kws p,
              AddMessage p (Message System
                (''I am browsing the web to research the following queries: '' @ join '', '' (queries research) @
                 ''. If I need anything, I will make sure to ask you.''))]
         \<and> p = (case given_name pn of Some n \<Rightarrow> n | None \<Rightarrow> project pr)"
  using assms
  unfolding execute_prepare_def Let_def
  by (cases "given_name pn")
     (auto simp: and_then_Return_iff invoke_Return_iff perform_Return_iff
        dest!: update_contextual_keywords_Return(3))

lemma prepare_no_deactivation:
  assumes "execute_prepare env prompt pn s = Return (p, plan, research) s1"
  shows "\<exists>evs. trace s1 = trace s @ evs \<and> list_all (\<lambda>e. \<not> deactivation e) evs"
  using prepare_Return [OF assms] by (cases "given_name pn") auto

lemma grows_messages_arrive: "grows (\<lambda>_. True) s (messages_arrive p ms s)"
  by (simp add: grows_def list_all_iff)

lemma grows_polled: "grows (\<lambda>_. True) s (polled p ms s)"
  by (simp add: grows_def list_all_iff)

lemma grows_wait_for_user_query:
  "grows (\<lambda>_. True) s (final_world (wait_for_user_query p arrivals s))"
proof (induction arrivals arbitrary: s)
  case Nil
  then show ?case by simp
next
  case (Cons arrived later)
  have a: "grows (\<lambda>_. True) s (record_event (Sleep 5) (add_message_from_devika p thanks (polled p arrived s)))"
    by (simp add: grows_def list_all_iff)
  have b: "grows (\<lambda>_. True) s (record_event (Sleep 5) (polled p arrived s))"
    by (simp add: grows_def list_all_iff)
  from grows_trans [OF b Cons.IH] a show ?case
    unfolding poll_step by simp
qed

lemma grows_execute_ask_user:
  "grows (\<lambda>_. True) s (final_world (execute_ask_user p question arrivals s))"
  unfolding execute_ask_user_def Let_def
  by (intro grows_steps grows_wait_for_user_query) simp_all

lemma grows_execute_prepare:
  "grows (\<lambda>_. True) s (final_world (execute_prepare env prompt pn s))"
  unfolding execute_prepare_def Let_def
  by (cases "given_name pn")
     (simp_all, (intro grows_steps grows_update_contextual_keywords; simp)+)

lemma grows_execute_code:
  "grows (\<lambda>_. True) s (final_world (execute_code env p plan qs aup s))"
  unfolding execute_code_def
  by (intro grows_steps grows_search_queries) simp_all

lemma grows_execute:
  "grows (\<lambda>_. True) s (final_world (execute env prompt pn arrivals s))"
  unfolding execute_def
  by (intro grows_steps grows_execute_prepare grows_execute_ask_user grows_execute_code)

lemma search_event_not_deactivation: "search_event e \<Longrightarrow> \<not> deactivation e"
  by (cases e) simp_all

text \<open>The coding phase: no deactivation before the final two flag updates.\<close>

lemma execute_code_events:
  "\<exists>evs. trace (final_world (execute_code env p plan qs aup s)) = trace s @ evs
     \<and> (case execute_code env p plan qs aup s of
           Return _ _ \<Rightarrow> (\<exists>evs'. evs = evs' @ [SetAgentActive p False, SetAgentCompleted p True]
                              \<and> list_all (\<lambda>e. \<not> deactivation e) evs')
         | _ \<Rightarrow> list_all (\<lambda>e. \<not> deactivation e) evs)"
proof (cases "search_queries env qs p s")
  case (Return results s3)
  from grows_search_queries [of "\<lambda>e. \<not> deactivation e" s env qs p] Return
  obtain evs where t3: "trace s3 = trace s @ evs" and n: "list_all (\<lambda>e. \<not> deactivation e) evs"
    by (auto simp: search_event_not_deactivation grows_def)
  show ?thesis
    by (cases "coder_execute env plan aup results p s3";
        cases "coder_save_code_to_project env (projr (coder_execute env plan aup results p s3)) p
                 (record_event (CoderExecute plan aup results p) s3)")
       (simp_all add: execute_code_def Return invoke_def perform_def t3 n)
next
  case (Raise e s3)
  from grows_search_queries [of "\<lambda>e. \<not> deactivation e" s env qs p] Raise
  show ?thesis
    by (auto simp: execute_code_def search_event_not_deactivation grows_def)
next
  case (Waiting s3)
  from grows_search_queries [of "\<lambda>e. \<not> deactivation e" s env qs p] Waiting
  show ?thesis
    by (auto simp: execute_code_def search_event_not_deactivation grows_def)
qed

lemma not_waiting_and_then:
  assumes "\<not> waiting m" and "\<And>x t. m = Return x t \<Longrightarrow> \<not> waiting (f x t)"
  shows "\<not> waiting (and_then m f)"
  using assms by (cases m) auto

lemma not_waiting_invoke: "\<not> waiting (invoke ev callee s)"
  by (simp add: invoke_def split: sum.splits)

lemma not_waiting_perform: "\<not> waiting (perform f s)"
  by (simp add: perform_def)

lemma not_waiting_search_one: "\<not> waiting (search_one env p q s)"
  unfolding search_one_def by (intro not_waiting_and_then not_waiting_invoke)

lemma not_waiting_search_queries_loop: "\<not> waiting (search_queries_loop env p qs results s)"
proof (induction qs arbitrary: results s)
  case Nil
  then show ?case by simp
next
  case (Cons q qs)
  show ?case
    by (simp add: Let_def) (intro not_waiting_and_then not_waiting_search_one Cons.IH)
qed

lemma not_waiting_execute_code: "\<not> waiting (execute_code env p plan qs aup s)"
  unfolding execute_code_def search_queries_def
  by (intro not_waiting_and_then not_waiting_invoke not_waiting_perform not_waiting_search_queries_loop)

lemma execute_after_prepare:
  assumes "execute_prepare env prompt pn s = Return (p, plan, research) s1"
  shows "execute env prompt pn arrivals s =
     and_then (execute_ask_user p (ask_user research) arrivals s1) (\<lambda>ask_user_prompt.
       execute_code env p plan (queries research) ask_user_prompt)"
  by (simp add: execute_def assms)

lemma ask_user_no_question:
  "execute_ask_user p [] arrivals s = Return ''Nothing from the user.'' (set_agent_active p True s)"
  by (simp add: execute_ask_user_def perform_def)

lemma prefix_invoke_then:
  assumes "\<And>x t. grows P t (final_world (f x t))"
  shows "prefix (trace s @ [ev]) (trace (final_world (and_then (invoke ev callee s) f)))"
proof (cases "callee s")
  case (Inl e)
  then show ?thesis by (simp add: invoke_def)
next
  case (Inr x)
  with grows_prefix [OF assms [of "record_event ev s" x]] show ?thesis by (simp add: invoke_def)
qed

lemma coder_called_after_search:
  assumes "search_queries env qs p s = Return results s3"
  shows "prefix (trace s3 @ [CoderExecute plan aup results p])
           (trace (final_world (execute_code env p plan qs aup s)))"
  unfolding execute_code_def assms and_then.simps
  by (intro prefix_invoke_then [where P = "\<lambda>_. True"] grows_steps) simp_all

lemma code_Return:
  assumes "execute_code env p plan qs aup s2 = Return () s'"
  shows "\<exists>evs. trace s' = trace s2 @ evs @ [SetAgentActive p False, SetAgentCompleted p True]"
    and "agent_completed s' p" and "\<not> agent_active s' p"
proof -
  from execute_code_events [of env p plan qs aup s2] assms
  show "\<exists>evs. trace s' = trace s2 @ evs @ [SetAgentActive p False, SetAgentCompleted p True]"
    by auto
  from assms obtain s4 where "s' = set_agent_completed p True (set_agent_active p False s4)"
    by (auto simp: execute_code_def and_then_Return_iff perform_Return_iff)
  then show "agent_completed s' p" "\<not> agent_active s' p"
    by simp_all
qed

lemma ask_user_Return_any:
  assumes "execute_ask_user p question arrivals s1 = Return r s2"
  shows "\<exists>evs. trace s2 = trace s1 @ evs @ [SetAgentActive p True]"
proof (cases "question = []")
  case True
  with assms have "s2 = set_agent_active p True s1"
    by (simp add: ask_user_no_question)
  then show ?thesis
    by (intro exI [of _ "[]"]) simp
next
  case False
  from ask_user_Return(3) [OF False assms] show ?thesis
    by auto
qed

lemma execute_Return:
  assumes "execute env prompt pn arrivals s = Return () s'"
  shows "\<exists>p evs1 evs2. trace s' = trace s @ evs1 @ [SetAgentActive p True] @ evs2 @
             [SetAgentActive p False, SetAgentCompleted p True]
           \<and> agent_completed s' p \<and> \<not> agent_active s' p \<and> (\<forall>n. given_name pn = Some n \<longrightarrow> p = n)"
proof -
  from assms obtain p plan research s1 r s2 where
    pre: "execute_prepare env prompt pn s = Return (p, plan, research) s1"
    and ask: "execute_ask_user p (ask_user research) arrivals s1 = Return r s2"
    and code: "execute_code env p plan (queries research) r s2 = Return () s'"
    by (auto simp: execute_def and_then_Return_iff)
  from prepare_Return [OF pre] obtain evs0 where t1: "trace s1 = trace s @ evs0"
    and pn: "\<forall>n. given_name pn = Some n \<longrightarrow> p = n"
    by (cases "given_name pn") auto
  from ask_user_Return_any [OF ask] obtain evs where t2: "trace s2 = trace s1 @ evs @ [SetAgentActive p True]"
    by blast
  from code_Return(1) [OF code] obtain evs2 where
    t3: "trace s' = trace s2 @ evs2 @ [SetAgentActive p False, SetAgentCompleted p True]"
    by blast
  have "trace s' = trace s @ (evs0 @ evs) @ [SetAgentActive p True] @ evs2 @
             [SetAgentActive p False, SetAgentCompleted p True]"
    by (simp add: t1 t2 t3)
  with code_Return(2,3) [OF code] pn show ?thesis
    by blast
qed

lemma subsequent_execute_Return:
  assumes "subsequent_execute env prompt q t = Return () t'"
  shows "\<exists>evs. trace t' = trace t @ [SetAgentActive q True] @ evs @
             [SetAgentActive q False, SetAgentCompleted q True]"
    and "agent_completed t' q" and "\<not> agent_active t' q"
proof -
  from assms obtain conv md response action s1 s2 where
    sel: "subsequent_execute_select env q t = Return (conv, md, response, action) s1"
    and dis: "subsequent_execute_dispatch env prompt q conv md action s1 = Return () s2"
    and fin: "t' = set_agent_completed q True (set_agent_active q False s2)"
    by (auto simp: subsequent_execute_def and_then_Return_iff subsequent_execute_finish_def
        perform_Return_iff)
  from grows_events [OF grows_dispatch [of s1 env prompt q conv md action]] dis
  obtain evs where "trace s2 = trace s1 @ evs"
    by auto
  then show "\<exists>evs. trace t' = trace t @ [SetAgentActive q True] @ evs @
             [SetAgentActive q False, SetAgentCompleted q True]"
    by (simp add: fin select_Return(3) [OF sel])
  show "agent_completed t' q" "\<not> agent_active t' q"
    by (simp_all add: fin)
qed

section \<open>Runs in the concrete environment\<close>

lemmas run_defs = subsequent_execute_def subsequent_execute_select_def subsequent_execute_dispatch_def
  subsequent_execute_finish_def action_execute_def netlify_deploy_def
  execute_def execute_prepare_def execute_ask_user_def execute_code_def given_name_def
  update_contextual_keywords_cases search_queries_def search_one_def
  make_decision_def make_decision_item_def replace_space_def Let_def
  get_latest_message_from_user_def validate_last_message_is_from_user_def

lemma demo_strings:
  "lower (strip '' Alpha'') = ''alpha''" "lower (strip ''BETA '') = ''beta''"
  "lower ''todo app'' = ''todo app''"
  by code_simp+

lemma demo_select:
  "subsequent_execute_select (demo_env a q items) ''todo-app'' demo_world =
     Return ([], ''# app.py'', ''Let me see.'', a) demo_selected"
  by (simp add: subsequent_execute_select_def action_execute_def prim_defs demo_env_def demo_world_def
      demo_selected_def)



lemma demo_update_sequence:
  "\<exists>s'. update_sequence (demo_env [] [] []) [''Todo'', ''app''] demo_world =
     Return [{''Todo'', ''todo''}, {''Todo'', ''todo'', ''app''}] s'"
proof -
  have l: "lower ''Todo'' = ''todo''" "lower ''app'' = ''app''"
    by code_simp+
  show ?thesis
    by (simp add: update_contextual_keywords_cases demo_env_def demo_world_def record_event_def l
        insert_commute)
qed



lemma demo_execute:
  "\<exists>s'. execute (demo_env [] ''Which colour?'' []) ''Build a todo app'' (Some ''todo-app'')
          [[], [Message User ''blue'']] demo_world = Return () s'"
  by (simp add: run_defs prim_defs demo_env_def demo_world_def demo_strings)

lemma demo_subsequent_execute:
  "\<exists>t'. subsequent_execute (demo_env ''answer'' [] []) ''What is it?'' ''todo-app'' demo_world = Return () t'"
  by (simp add: run_defs prim_defs demo_env_def demo_world_def)


lemma demo_prepare:
  "\<exists>s1. execute_prepare (demo_env [] [] []) ''Build a todo app'' None demo_world =
     Return (''todo-app'', ''1. write the app'', \<lparr>queries = ['' Alpha'', ''BETA ''], ask_user = []\<rparr>) s1"
  by (simp add: run_defs prim_defs demo_env_def demo_world_def demo_strings)


section \<open>The claims\<close>

text \<open>
  C1. In \<open>subsequent_execute\<close> the variable \<open>os_system\<close> is assigned only in the \<open>run\<close>
  branch. Whenever the selected action kind is \<open>feature\<close> or \<open>bug\<close>, the branch reads the
  variable before any assignment: the dispatch raises \<open>UnboundLocalError\<close> for
  \<open>os_system\<close> in the world the selection phase left (no role of the branch is invoked, and
  the flags are not reset), and so does the whole method. The \<open>run\<close> branch assigns the
  variable before reading it: the runner is invoked with the platform descriptor.
\<close>

theorem os_system_read_before_assignment:
  assumes "subsequent_execute_select env p s = Return (conv, md, response, action) s1"
  shows "(action = ''feature'' \<or> action = ''bug'' \<longrightarrow>
            subsequent_execute_dispatch env prompt p conv md action s1 = Raise (UnboundLocalError ''os_system'') s1
          \<and> subsequent_execute env prompt p s = Raise (UnboundLocalError ''os_system'') s1)
       \<and> (action = ''run'' \<longrightarrow>
            subsequent_execute_dispatch env prompt p conv md action s1 =
              and_then (invoke (GetProjectPath p) (get_project_path env p) s1) (\<lambda>project_path.
                invoke (RunnerExecute conv md (platform_platform env) project_path p)
                  (runner_execute env conv md (platform_platform env) project_path p)))"
proof -
  have feature: "subsequent_execute_dispatch env prompt p conv md ''feature'' s1 =
      Raise (UnboundLocalError ''os_system'') s1"
    by (simp add: subsequent_execute_dispatch_def read_local_def)
  have bug: "subsequent_execute_dispatch env prompt p conv md ''bug'' s1 =
      Raise (UnboundLocalError ''os_system'') s1"
    by (simp add: subsequent_execute_dispatch_def read_local_def)
  have run: "subsequent_execute_dispatch env prompt p conv md ''run'' s1 =
              and_then (invoke (GetProjectPath p) (get_project_path env p) s1) (\<lambda>project_path.
                invoke (RunnerExecute conv md (platform_platform env) project_path p)
                  (runner_execute env conv md (platform_platform env) project_path p))"
    by (simp add: subsequent_execute_dispatch_def read_local_def)
  note whole = subsequent_execute_after_select [OF assms, of prompt]
  show ?thesis
    using feature bug run whole by auto
qed

theorem os_system_read_before_assignment_witness:
  "subsequent_execute (demo_env ''feature'' [] []) ''add a button'' ''todo-app'' demo_world =
     Raise (UnboundLocalError ''os_system'') demo_selected
   \<and> subsequent_execute (demo_env ''bug'' [] []) ''it crashes'' ''todo-app'' demo_world =
     Raise (UnboundLocalError ''os_system'') demo_selected
   \<and> subsequent_execute_dispatch (demo_env ''run'' [] []) ''run it'' ''todo-app'' [] ''# app.py'' ''run''
       demo_selected =
     Return () (record_event (RunnerExecute [] ''# app.py'' ''Linux'' ''/projects/todo-app'' ''todo-app'')
                 (record_event (GetProjectPath ''todo-app'') demo_selected))"
  using os_system_read_before_assignment [OF demo_select [of "''feature''" "[]" "[]"], of "''add a button''"]
        os_system_read_before_assignment [OF demo_select [of "''bug''" "[]" "[]"], of "''it crashes''"]
        os_system_read_before_assignment [OF demo_select [of "''run''" "[]" "[]"], of "''run it''"]
  by (simp add: invoke_def demo_env_def)

text \<open>
  C2. After a run of \<open>execute\<close> or of \<open>subsequent_execute\<close> that returns (no exception,
  no endless wait), \<open>completed\<close> is true and \<open>active\<close> is false for the objective of the
  run, the last two effects of the run being these two updates, and \<open>active\<close> was set to
  true for that objective earlier in the same run. For \<open>execute\<close> the objective is the
  given name when there is one, the planner's project name otherwise.
\<close>

theorem completed_run_final_state:
  "(execute env prompt pn arrivals s = Return () s' \<longrightarrow>
      (\<exists>p evs1 evs2. trace s' = trace s @ evs1 @ [SetAgentActive p True] @ evs2 @
             [SetAgentActive p False, SetAgentCompleted p True]
           \<and> agent_completed s' p \<and> \<not> agent_active s' p \<and> (\<forall>n. given_name pn = Some n \<longrightarrow> p = n)))
   \<and> (subsequent_execute env prompt q t = Return () t' \<longrightarrow>
      (\<exists>evs. trace t' = trace t @ [SetAgentActive q True] @ evs @
             [SetAgentActive q False, SetAgentCompleted q True])
      \<and> agent_completed t' q \<and> \<not> agent_active t' q)"
  using execute_Return [of env prompt pn arrivals s s'] subsequent_execute_Return [of env prompt q t t']
  by blast

theorem completed_run_final_state_witness:
  "(\<exists>s'. execute (demo_env [] ''Which colour?'' []) ''Build a todo app'' (Some ''todo-app'')
          [[], [Message User ''blue'']] demo_world = Return () s'
        \<and> agent_completed s' ''todo-app'' \<and> \<not> agent_active s' ''todo-app''
        \<and> (\<exists>evs1 evs2. trace s' = evs1 @ [SetAgentActive ''todo-app'' True] @ evs2 @
             [SetAgentActive ''todo-app'' False, SetAgentCompleted ''todo-app'' True]))
   \<and> (\<exists>t'. subsequent_execute (demo_env ''answer'' [] []) ''What is it?'' ''todo-app'' demo_world = Return () t'
        \<and> agent_completed t' ''todo-app'' \<and> \<not> agent_active t' ''todo-app''
        \<and> (\<exists>evs. trace t' = [SetAgentActive ''todo-app'' True] @ evs @
             [SetAgentActive ''todo-app'' False, SetAgentCompleted ''todo-app'' True]))"
proof -
  from demo_execute obtain s' where
    e: "execute (demo_env [] ''Which colour?'' []) ''Build a todo app'' (Some ''todo-app'')
          [[], [Message User ''blue'']] demo_world = Return () s'"
    by blast
  from demo_subsequent_execute obtain t' where
    u: "subsequent_execute (demo_env ''answer'' [] []) ''What is it?'' ''todo-app'' demo_world = Return () t'"
    by blast
  have g: "given_name (Some ''todo-app'') = Some ''todo-app''"
    by (simp add: given_name_def)
  have t0: "trace demo_world = []"
    by (simp add: demo_world_def)
  note k = completed_run_final_state [of "demo_env [] ''Which colour?'' []" "''Build a todo app''" "Some ''todo-app''"
      "[[], [Message User ''blue'']]" demo_world s']
  note k' = completed_run_final_state [of "demo_env ''answer'' [] []" "''What is it?''" _ _ _ _ "''todo-app''" demo_world t']
  from k e g have 1: "agent_completed s' ''todo-app'' \<and> \<not> agent_active s' ''todo-app''
        \<and> (\<exists>evs1 evs2. trace s' = trace demo_world @ evs1 @ [SetAgentActive ''todo-app'' True] @ evs2 @
             [SetAgentActive ''todo-app'' False, SetAgentCompleted ''todo-app'' True])"
    by blast
  from k' u have 2: "agent_completed t' ''todo-app'' \<and> \<not> agent_active t' ''todo-app''
        \<and> (\<exists>evs. trace t' = trace demo_world @ [SetAgentActive ''todo-app'' True] @ evs @
             [SetAgentActive ''todo-app'' False, SetAgentCompleted ''todo-app'' True])"
    by blast
  from 1 2 e u show ?thesis
    unfolding t0 append_Nil by blast
qed







text \<open>
  C6. In \<open>execute\<close>, when the researcher's clarifying question is the empty string, there
  is no suspension: whatever messages other writers append, the block of lines 295 to 318
  returns the sentinel \<open>Nothing from the user.\<close> at once, its only effect being
  \<open>active := true\<close>; the run is never left waiting; in the whole run \<open>active\<close> is not set
  to false except by the last but one effect of a run that returns (line 341); and as
  soon as the search returns, the coder is invoked with the sentinel as its user context.
\<close>

theorem no_question_no_suspension:
  assumes "execute_prepare env prompt pn s = Return (p, plan, research) s1"
    and "ask_user research = []"
  shows "execute_ask_user p (ask_user research) arrivals s1 =
           Return ''Nothing from the user.'' (set_agent_active p True s1)
       \<and> execute env prompt pn arrivals s =
           execute_code env p plan (queries research) ''Nothing from the user.'' (set_agent_active p True s1)
       \<and> \<not> waiting (execute env prompt pn arrivals s)
       \<and> (case execute env prompt pn arrivals s of
             Return _ t \<Rightarrow> (\<exists>evs. events_since s t = evs @ [SetAgentActive p False, SetAgentCompleted p True]
                               \<and> list_all (\<lambda>e. \<not> deactivation e) evs)
           | Raise _ t \<Rightarrow> list_all (\<lambda>e. \<not> deactivation e) (events_since s t)
           | Waiting t \<Rightarrow> False)
       \<and> (\<forall>results s3.
            search_queries env (queries research) p (set_agent_active p True s1) = Return results s3 \<longrightarrow>
            prefix (trace s3 @ [CoderExecute plan ''Nothing from the user.'' results p])
              (trace (final_world (execute env prompt pn arrivals s))))"
proof -
  have a: "execute_ask_user p (ask_user research) arrivals s1 =
           Return ''Nothing from the user.'' (set_agent_active p True s1)"
    by (simp add: assms(2) ask_user_no_question)
  have e: "execute env prompt pn arrivals s =
           execute_code env p plan (queries research) ''Nothing from the user.'' (set_agent_active p True s1)"
    by (simp add: execute_after_prepare [OF assms(1)] a)
  have w: "\<not> waiting (execute env prompt pn arrivals s)"
    by (simp only: e not_waiting_execute_code not_False_eq_True)
  from prepare_no_deactivation [OF assms(1)] obtain evs0 where
    t1: "trace s1 = trace s @ evs0" and n0: "list_all (\<lambda>e. \<not> deactivation e) evs0"
    by blast
  from execute_code_events [of env p plan "queries research" "''Nothing from the user.''"
      "set_agent_active p True s1"]
  obtain evs2 where
    t2: "trace (final_world (execute env prompt pn arrivals s)) = trace (set_agent_active p True s1) @ evs2"
    and c2: "(case execute env prompt pn arrivals s of
           Return _ _ \<Rightarrow> (\<exists>evs'. evs2 = evs' @ [SetAgentActive p False, SetAgentCompleted p True]
                              \<and> list_all (\<lambda>e. \<not> deactivation e) evs')
         | _ \<Rightarrow> list_all (\<lambda>e. \<not> deactivation e) evs2)"
    unfolding e by blast
  have t: "trace (final_world (execute env prompt pn arrivals s)) =
      trace s @ (evs0 @ [SetAgentActive p True] @ evs2)"
    by (simp add: t2 t1)
  have d: "(case execute env prompt pn arrivals s of
             Return _ t \<Rightarrow> (\<exists>evs. events_since s t = evs @ [SetAgentActive p False, SetAgentCompleted p True]
                               \<and> list_all (\<lambda>e. \<not> deactivation e) evs)
           | Raise _ t \<Rightarrow> list_all (\<lambda>e. \<not> deactivation e) (events_since s t)
           | Waiting t \<Rightarrow> False)"
  proof (cases "execute env prompt pn arrivals s")
    case (Return x u)
    with c2 obtain evs' where "evs2 = evs' @ [SetAgentActive p False, SetAgentCompleted p True]"
      and "list_all (\<lambda>e. \<not> deactivation e) evs'"
      by auto
    with events_since_append [OF t] Return n0 show ?thesis
      by (intro exI [of _ "evs0 @ [SetAgentActive p True] @ evs'"] | simp)+
  next
    case (Raise x u)
    with c2 events_since_append [OF t] n0 show ?thesis
      by simp
  next
    case (Waiting u)
    with w show ?thesis by simp
  qed
  have c: "\<forall>results s3.
            search_queries env (queries research) p (set_agent_active p True s1) = Return results s3 \<longrightarrow>
            prefix (trace s3 @ [CoderExecute plan ''Nothing from the user.'' results p])
              (trace (final_world (execute env prompt pn arrivals s)))"
    unfolding e using coder_called_after_search by blast
  show ?thesis
    using a e w d c by blast
qed

theorem no_question_no_suspension_witness:
  "\<exists>s1. execute_prepare (demo_env [] [] []) ''Build a todo app'' None demo_world =
          Return (''todo-app'', ''1. write the app'', \<lparr>queries = ['' Alpha'', ''BETA ''], ask_user = []\<rparr>) s1
       \<and> execute_ask_user ''todo-app'' [] [[Message User ''hello'']] s1 =
           Return ''Nothing from the user.'' (set_agent_active ''todo-app'' True s1)
       \<and> execute (demo_env [] [] []) ''Build a todo app'' None [[Message User ''hello'']] demo_world =
           execute_code (demo_env [] [] []) ''todo-app'' ''1. write the app'' ['' Alpha'', ''BETA '']
             ''Nothing from the user.'' (set_agent_active ''todo-app'' True s1)
       \<and> \<not> waiting (execute (demo_env [] [] []) ''Build a todo app'' None [[Message User ''hello'']] demo_world)"
proof -
  from demo_prepare obtain s1 where
    p: "execute_prepare (demo_env [] [] []) ''Build a todo app'' None demo_world =
     Return (''todo-app'', ''1. write the app'', \<lparr>queries = ['' Alpha'', ''BETA ''], ask_user = []\<rparr>) s1"
    by blast
  have q: "ask_user \<lparr>queries = ['' Alpha'', ''BETA ''], ask_user = []\<rparr> = []"
    by simp
  from no_question_no_suspension [OF p q, of "[[Message User ''hello'']]"] p show ?thesis
    by auto
qed



text \<open>
  C8. The contextual keyword set never shrinks. Whatever a call of
  \<open>update_contextual_keywords\<close> does (return or raise), the set after it contains the set
  before it; when the extractor answers, the call returns the old set united with the
  terms of the extracted pairs (the scores are dropped) and stores it. Along any sequence
  of calls the results form a chain: each is a superset of every earlier one and of the
  initial set, and the last one is the stored set. Between two calls the set cannot
  shrink either: whatever \<open>execute\<close>, \<open>subsequent_execute\<close> and \<open>make_decision\<close> do, the
  set after them contains the set before them.
\<close>

theorem keyword_set_never_shrinks:
  "collected_context_keywords s \<subseteq>
     collected_context_keywords (final_world (update_contextual_keywords env sentence s))
   \<and> (\<forall>kws. extract_keywords env sentence s = Inr kws \<longrightarrow>
        update_contextual_keywords env sentence s =
          Return (collected_context_keywords s \<union> fst ` set kws)
            ((record_event (ExtractKeywords sentence) s)
               \<lparr>collected_context_keywords := collected_context_keywords s \<union> fst ` set kws\<rparr>))
   \<and> (\<forall>kss s'. update_sequence env sentences s = Return kss s' \<longrightarrow>
        length kss = length sentences
        \<and> sorted_wrt (\<subseteq>) (collected_context_keywords s # kss)
        \<and> collected_context_keywords s' = last (collected_context_keywords s # kss))
   \<and> collected_context_keywords s \<subseteq>
        collected_context_keywords (final_world (execute env prompt pn arrivals s))
   \<and> collected_context_keywords s \<subseteq>
        collected_context_keywords (final_world (subsequent_execute env prompt p s))
   \<and> collected_context_keywords s \<subseteq>
        collected_context_keywords (final_world (make_decision env prompt p s))"
proof -
  have one: "collected_context_keywords s \<subseteq>
     collected_context_keywords (final_world (update_contextual_keywords env sentence s))"
    by (simp add: update_contextual_keywords_cases split: sum.splits)
  have two: "\<forall>kws. extract_keywords env sentence s = Inr kws \<longrightarrow>
        update_contextual_keywords env sentence s =
          Return (collected_context_keywords s \<union> fst ` set kws)
            ((record_event (ExtractKeywords sentence) s)
               \<lparr>collected_context_keywords := collected_context_keywords s \<union> fst ` set kws\<rparr>)"
    by (simp add: update_contextual_keywords_cases)
  have three: "\<forall>kss s'. update_sequence env sentences s = Return kss s' \<longrightarrow>
        length kss = length sentences
        \<and> sorted_wrt (\<subseteq>) (collected_context_keywords s # kss)
        \<and> collected_context_keywords s' = last (collected_context_keywords s # kss)"
    using update_sequence_Return by blast
  note others = grows_keywords [OF grows_execute [of s env prompt pn arrivals]]
    grows_keywords [OF grows_subsequent_execute [of s env prompt p]]
    grows_keywords [OF grows_make_decision [of s env prompt p]]
  show ?thesis
    by (intro conjI one two three others)
qed

theorem keyword_set_never_shrinks_witness:
  "extract_keywords (demo_env [] [] []) ''Todo'' demo_world = Inr [(''Todo'', 1 / 2), (''todo'', 1 / 4)]
   \<and> update_contextual_keywords (demo_env [] [] []) ''Todo'' demo_world =
       Return {''Todo'', ''todo''}
         ((record_event (ExtractKeywords ''Todo'') demo_world)\<lparr>collected_context_keywords := {''Todo'', ''todo''}\<rparr>)
   \<and> (\<exists>s'. update_sequence (demo_env [] [] []) [''Todo'', ''app''] demo_world =
          Return [{''Todo'', ''todo''}, {''Todo'', ''todo'', ''app''}] s'
        \<and> sorted_wrt (\<subseteq>) [{}, {''Todo'', ''todo''}, {''Todo'', ''todo'', ''app''}]
        \<and> collected_context_keywords s' = {''Todo'', ''todo'', ''app''})"
proof -
  have l: "lower ''Todo'' = ''todo''"
    by code_simp
  have e: "extract_keywords (demo_env [] [] []) ''Todo'' demo_world = Inr [(''Todo'', 1 / 2), (''todo'', 1 / 4)]"
    by (simp add: demo_env_def l)
  have c0: "collected_context_keywords demo_world = {}"
    by (simp add: demo_world_def)
  note k = keyword_set_never_shrinks [of demo_world "demo_env [] [] []" "''Todo''" "[''Todo'', ''app'']"]
  from k e have one: "update_contextual_keywords (demo_env [] [] []) ''Todo'' demo_world =
       Return {''Todo'', ''todo''}
         ((record_event (ExtractKeywords ''Todo'') demo_world)\<lparr>collected_context_keywords := {''Todo'', ''todo''}\<rparr>)"
    unfolding c0 by simp
  from demo_update_sequence obtain s' where
    run: "update_sequence (demo_env [] [] []) [''Todo'', ''app''] demo_world =
     Return [{''Todo'', ''todo''}, {''Todo'', ''todo'', ''app''}] s'"
    by blast
  from k run have "sorted_wrt (\<subseteq>) (collected_context_keywords demo_world # [{''Todo'', ''todo''}, {''Todo'', ''todo'', ''app''}])
      \<and> collected_context_keywords s' = last (collected_context_keywords demo_world # [{''Todo'', ''todo''}, {''Todo'', ''todo'', ''app''}])"
    by blast
  then have "sorted_wrt (\<subseteq>) [{}, {''Todo'', ''todo''}, {''Todo'', ''todo'', ''app''}]
      \<and> collected_context_keywords s' = {''Todo'', ''todo'', ''app''}"
    unfolding c0 by simp
  then show ?thesis
    using e one run by blast
qed




text \<open>
  C10. If the action selector returns an action kind outside the six, \<open>subsequent_execute\<close>
  raises nothing and runs no branch: the dispatch returns at once in the same world. The
  narration has been appended, the method sets \<open>active\<close> to false and \<open>completed\<close> to true
  and returns \<open>None\<close>; the events of the whole run are those of the selection phase and the
  two flag updates.
\<close>

theorem unknown_action_kind_runs_no_branch:
  assumes "subsequent_execute_select env p s = Return (conv, md, response, action) s1"
    and "action \<notin> set action_kinds"
  shows "subsequent_execute_dispatch env prompt p conv md action s1 = Return () s1
       \<and> subsequent_execute env prompt p s = Return () (set_agent_completed p True (set_agent_active p False s1))
       \<and> trace (set_agent_completed p True (set_agent_active p False s1)) =
           trace s @ [SetAgentActive p True, CodeToMarkdownConvert p, ActionExecute conv p,
                      AddMessage p (Message System response), SetAgentActive p False, SetAgentCompleted p True]
       \<and> messages (set_agent_completed p True (set_agent_active p False s1)) p =
           messages s p @ [Message System response]
       \<and> agent_active (set_agent_completed p True (set_agent_active p False s1)) p = False
       \<and> agent_completed (set_agent_completed p True (set_agent_active p False s1)) p = True"
proof -
  note r = select_Return [OF assms(1)]
  have d: "subsequent_execute_dispatch env prompt p conv md action s1 = Return () s1"
    using assms(2) by (simp add: subsequent_execute_dispatch_def action_kinds_def)
  have w: "subsequent_execute env prompt p s =
      Return () (set_agent_completed p True (set_agent_active p False s1))"
    using subsequent_execute_after_select [OF assms(1), of prompt]
    by (simp add: d subsequent_execute_finish_def perform_def)
  show ?thesis
    using d w by (simp add: r(3) add_message_from_devika_def)
qed

theorem unknown_action_kind_runs_no_branch_witness:
  "''dance'' \<notin> set action_kinds
   \<and> subsequent_execute (demo_env ''dance'' [] []) ''dance'' ''todo-app'' demo_world =
       Return () (set_agent_completed ''todo-app'' True (set_agent_active ''todo-app'' False demo_selected))
   \<and> trace (set_agent_completed ''todo-app'' True (set_agent_active ''todo-app'' False demo_selected)) =
       [SetAgentActive ''todo-app'' True, CodeToMarkdownConvert ''todo-app'', ActionExecute [] ''todo-app'',
        AddMessage ''todo-app'' (Message System ''Let me see.''), SetAgentActive ''todo-app'' False,
        SetAgentCompleted ''todo-app'' True]"
proof -
  have k: "''dance'' \<notin> set action_kinds"
    by (simp add: action_kinds_def)
  show ?thesis
    using k unknown_action_kind_runs_no_branch [OF demo_select [of "''dance''" "[]" "[]"] k, of "''dance''"]
    by (simp add: demo_world_def)
qed

end
